theory Spec2Isabelle
  imports Main "HOL-Library.Word"
begin

unbundle bit_operations_syntax

section \<open>Platform: bytes, addresses and memory\<close>

text \<open>
  The serializer of \<^verbatim>\<open>subversion/libsvn_subr/svn_temp_serializer.c\<close> is modelled for an
  LP64 little-endian platform: a pointer and an \<^verbatim>\<open>apr_size_t\<close> both occupy eight bytes,
  and the NULL pointer is the address 0.  Addresses are 64-bit words, so that the pointer
  difference taken by the patch-slot computation wraps around exactly as the C expression
  does once it is converted to \<^verbatim>\<open>apr_size_t\<close>.

  The caller's memory (the original structures and strings) is a function from addresses
  to bytes.  It is an explicit argument of every operation that dereferences a pointer of
  the caller.
\<close>

type_synonym byte = "8 word"
type_synonym addr = "64 word"
type_synonym memory = "addr \<Rightarrow> byte"

text \<open>The eight bytes of a 64-bit value, least significant first, and back.\<close>

definition size_t_bytes :: "64 word \<Rightarrow> byte list" where
  "size_t_bytes v = map (\<lambda>i. ucast (drop_bit (8 * i) v)) [0..<8]"

definition size_t_of_bytes :: "byte list \<Rightarrow> 64 word" where
  "size_t_of_bytes bs = word_of_int (horner_sum uint 256 bs)"

text \<open>Reading and writing a pointer-sized value in the caller's memory.\<close>

definition load_size_t :: "memory \<Rightarrow> addr \<Rightarrow> 64 word" where
  "load_size_t h a = size_t_of_bytes (map (\<lambda>i. h (a + of_nat i)) [0..<8])"

definition store_size_t :: "memory \<Rightarrow> addr \<Rightarrow> 64 word \<Rightarrow> memory" where
  "store_size_t h a v = (\<lambda>x. if x - a < 8 then size_t_bytes v ! unat (x - a) else h x)"

text \<open>
  \<^verbatim>\<open>strlen\<close>: the scan for the terminating NUL byte.  On a memory without a NUL byte the
  scan never returns, which is the value \<open>None\<close>.
\<close>

partial_function (option) strlen :: "memory \<Rightarrow> addr \<Rightarrow> nat option" where
  "strlen h p = (if h p = 0 then Some 0 else Option.bind (strlen h (p + 1)) (\<lambda>n. Some (Suc n)))"

text \<open>
  Failed \<^verbatim>\<open>assert\<close>s abort the process (the code is taken as compiled without
  \<^verbatim>\<open>NDEBUG\<close>); they are the only fault of the serializer itself.
\<close>

datatype fault = AssertionFailed


section \<open>The growable byte buffer\<close>

text \<open>
  \<^verbatim>\<open>svn_stringbuf_t\<close>.  \<open>data\<close> is the memory block of the buffer, indexed by the byte
  offset from its start; only the first \<open>len\<close> bytes are serialized data, the bytes
  behind them are spare capacity.  Lengths and offsets inside the buffer are natural
  numbers: the buffer lives in memory, so no length comes near \<open>2 ^ 64\<close>; the places
  where the C arithmetic on \<^verbatim>\<open>apr_size_t\<close> can wrap around (the patch-slot offset and the
  stored relative offset) are computed on 64-bit words.
\<close>

record svn_stringbuf_t =
  data :: "nat \<Rightarrow> byte"
  len :: nat
  blocksize :: nat

text \<open>
  \<^verbatim>\<open>apr_pool_t\<close>: the allocation region.  The serializer observes one thing of it, the
  indeterminate contents of the memory it hands out: \<open>pool i\<close> is what byte \<open>i\<close> of a
  fresh buffer block holds before anything is written there.
\<close>

type_synonym apr_pool_t = "nat \<Rightarrow> byte"

text \<open>
  Modelled from the spec: \<^verbatim>\<open>svn_stringbuf_create_ensure\<close> is the buffer's
  \<^verbatim>\<open>create(capacityHint)\<close> (its definition in \<^verbatim>\<open>svn_string.c\<close> is not part of the sources):
  an empty buffer of the given capacity.
\<close>

definition svn_stringbuf_create_ensure :: "nat \<Rightarrow> apr_pool_t \<Rightarrow> svn_stringbuf_t" where
  "svn_stringbuf_create_ensure capacity p = \<lparr>data = p, len = 0, blocksize = capacity\<rparr>"

text \<open>
  Modelled from the spec: \<^verbatim>\<open>svn_stringbuf_ensure\<close> is the buffer's
  \<^verbatim>\<open>ensureCapacity(n)\<close> (defined in \<^verbatim>\<open>svn_string.c\<close>): afterwards the capacity is at least
  \<open>n\<close>; length and contents are kept.
\<close>

definition svn_stringbuf_ensure :: "svn_stringbuf_t \<Rightarrow> nat \<Rightarrow> svn_stringbuf_t" where
  "svn_stringbuf_ensure str minimum_size = str\<lparr>blocksize := max (blocksize str) minimum_size\<rparr>"

text \<open>
  Modelled from the spec: \<^verbatim>\<open>svn_stringbuf_appendbytes\<close> is the buffer's
  \<^verbatim>\<open>appendBytes(data, len)\<close> (defined in \<^verbatim>\<open>svn_string.c\<close>): \<open>count\<close> bytes read from the
  caller's memory at \<open>bytes\<close> are copied behind the current end, and the length grows by
  \<open>count\<close>.
\<close>

definition svn_stringbuf_appendbytes ::
  "memory \<Rightarrow> svn_stringbuf_t \<Rightarrow> addr \<Rightarrow> nat \<Rightarrow> svn_stringbuf_t" where
  "svn_stringbuf_appendbytes h str bytes count =
     (let start = len str;
          str = svn_stringbuf_ensure str (start + count)
      in str\<lparr>data := (\<lambda>i. if start \<le> i \<and> i < start + count
                             then h (bytes + of_nat (i - start)) else data str i),
              len := start + count\<rparr>)"

text \<open>
  Modelled from the spec: \<^verbatim>\<open>APR_ALIGN_DEFAULT\<close> (an APR macro, not part of the sources)
  rounds a size up to the platform's default alignment boundary, taken as 8 bytes.
\<close>

definition APR_ALIGN_DEFAULT :: "nat \<Rightarrow> nat" where
  "APR_ALIGN_DEFAULT n = (n + 7) div 8 * 8"

text \<open>
  Reading and writing an \<^verbatim>\<open>apr_size_t\<close> at a byte offset of the buffer block, as the
  assignment through \<^verbatim>\<open>(apr_size_t*)(context->buffer->data + ptr_offset)\<close> does.  The
  assertion in front of that assignment only asks for the first byte of the slot to lie
  inside the serialized data; the write puts all eight bytes into the block wherever
  they fall.
\<close>

definition buf_load :: "(nat \<Rightarrow> byte) \<Rightarrow> nat \<Rightarrow> 64 word" where
  "buf_load d off = size_t_of_bytes (map (\<lambda>i. d (off + i)) [0..<8])"

definition buf_store :: "(nat \<Rightarrow> byte) \<Rightarrow> nat \<Rightarrow> 64 word \<Rightarrow> (nat \<Rightarrow> byte)" where
  "buf_store d off v = (\<lambda>i. if off \<le> i \<and> i < off + 8 then size_t_bytes v ! (i - off) else d i)"

text \<open>The serialized data of a buffer: its first \<open>len\<close> bytes.\<close>

definition serialized :: "svn_stringbuf_t \<Rightarrow> byte list" where
  "serialized str = map (data str) [0..<len str]"


section \<open>The serialization context\<close>

text \<open>
  \<^verbatim>\<open>source_stack_t\<close>.  The \<^verbatim>\<open>upper\<close> link is the tail of the list that holds the stack;
  the empty list is the NULL stack.
\<close>

record source_stack_t =
  source_struct :: addr
  target_offset :: nat

record svn_temp_serializer__context_t =
  pool :: apr_pool_t
  buffer :: svn_stringbuf_t
  source :: "source_stack_t list"

definition align_buffer_end :: "svn_temp_serializer__context_t \<Rightarrow> svn_temp_serializer__context_t" where
  "align_buffer_end context =
     (let current_len = len (buffer context);
          aligned_len = APR_ALIGN_DEFAULT current_len
      in if aligned_len \<noteq> current_len
         then context\<lparr>buffer := (svn_stringbuf_ensure (buffer context) (aligned_len + 1))\<lparr>len := aligned_len\<rparr>\<rparr>
         else context)"

definition svn_temp_serializer__init ::
  "memory \<Rightarrow> addr \<Rightarrow> nat \<Rightarrow> nat \<Rightarrow> apr_pool_t \<Rightarrow> svn_temp_serializer__context_t" where
  "svn_temp_serializer__init h root struct_size suggested_buffer_size p =
     (let init_size = (if suggested_buffer_size < struct_size
                       then struct_size else suggested_buffer_size);
          buf = svn_stringbuf_create_ensure init_size p
      in if root \<noteq> 0
         then \<lparr>pool = p,
               buffer = svn_stringbuf_appendbytes h buf root struct_size,
               source = [\<lparr>source_struct = root, target_offset = 0\<rparr>]\<rparr>
         else \<lparr>pool = p, buffer = buf, source = []\<rparr>)"

text \<open>
  The patch-slot offset \<^verbatim>\<open>(const char *)source_pointer - (const char *)source_struct
  + target_offset\<close>, an \<^verbatim>\<open>apr_size_t\<close>: the pointer difference may be negative, and the sum is
  taken modulo \<open>2 ^ 64\<close>.
\<close>

definition slot_offset :: "source_stack_t \<Rightarrow> addr \<Rightarrow> nat" where
  "slot_offset entry source_pointer =
     unat ((source_pointer - source_struct entry) + word_of_nat (target_offset entry) :: 64 word)"

definition store_current_end_pointer ::
  "memory \<Rightarrow> svn_temp_serializer__context_t \<Rightarrow> addr \<Rightarrow> fault + svn_temp_serializer__context_t" where
  "store_current_end_pointer h context source_pointer =
     (case source context of
        [] \<Rightarrow> Inr context
      | entry # upper \<Rightarrow>
          let ptr_offset = slot_offset entry source_pointer
          in if \<not> len (buffer context) > ptr_offset then Inl AssertionFailed
             else Inr (context\<lparr>buffer := (buffer context)\<lparr>data :=
                    buf_store (data (buffer context)) ptr_offset
                      (if load_size_t h source_pointer = 0 then 0
                       else word_of_nat (len (buffer context)) - word_of_nat (target_offset entry))\<rparr>\<rparr>))"

definition svn_temp_serializer__push ::
  "memory \<Rightarrow> svn_temp_serializer__context_t \<Rightarrow> addr \<Rightarrow> nat \<Rightarrow> fault + svn_temp_serializer__context_t" where
  "svn_temp_serializer__push h context source_pointer struct_size =
     (let child = load_size_t h source_pointer;
          context = (if child \<noteq> 0 then align_buffer_end context else context)
      in case store_current_end_pointer h context source_pointer of
           Inl f \<Rightarrow> Inl f
         | Inr context \<Rightarrow>
             let new = \<lparr>source_struct = child, target_offset = len (buffer context)\<rparr>;
                 context = context\<lparr>source := new # source context\<rparr>
             in Inr (if child \<noteq> 0
                     then context\<lparr>buffer := svn_stringbuf_appendbytes h (buffer context) child struct_size\<rparr>
                     else context))"

definition svn_temp_serializer__pop ::
  "svn_temp_serializer__context_t \<Rightarrow> fault + svn_temp_serializer__context_t" where
  "svn_temp_serializer__pop context =
     (case source context of
        [] \<Rightarrow> Inl AssertionFailed
      | entry # upper \<Rightarrow> Inr (context\<lparr>source := upper\<rparr>))"

text \<open>
  \<^verbatim>\<open>svn_temp_serializer__add_string\<close> calls \<^verbatim>\<open>strlen\<close>; where that scan does not return,
  neither does the operation (\<open>None\<close>).
\<close>

definition svn_temp_serializer__add_string ::
  "memory \<Rightarrow> svn_temp_serializer__context_t \<Rightarrow> addr \<Rightarrow> (fault + svn_temp_serializer__context_t) option" where
  "svn_temp_serializer__add_string h context s =
     (case store_current_end_pointer h context s of
        Inl f \<Rightarrow> Some (Inl f)
      | Inr context \<Rightarrow>
          let str = load_size_t h s
          in if str \<noteq> 0
             then (case strlen h str of
                     None \<Rightarrow> None
                   | Some n \<Rightarrow> Some (Inr (context\<lparr>buffer :=
                       svn_stringbuf_appendbytes h (buffer context) str (n + 1)\<rparr>)))
             else Some (Inr context))"

definition svn_temp_serializer__set_null ::
  "svn_temp_serializer__context_t \<Rightarrow> addr \<Rightarrow> fault + svn_temp_serializer__context_t" where
  "svn_temp_serializer__set_null context ptr =
     (case source context of
        [] \<Rightarrow> Inl AssertionFailed
      | entry # upper \<Rightarrow>
          let offset = slot_offset entry ptr
          in if \<not> len (buffer context) > offset then Inl AssertionFailed
             else Inr (context\<lparr>buffer := (buffer context)\<lparr>data :=
                    buf_store (data (buffer context)) offset 0\<rparr>\<rparr>))"

text \<open>
  \<^verbatim>\<open>svn_temp_serializer__get\<close> hands out the buffer; the context it is given stays as it
  is, which the second component records.
\<close>

definition svn_temp_serializer__get ::
  "svn_temp_serializer__context_t \<Rightarrow> svn_stringbuf_t \<times> svn_temp_serializer__context_t" where
  "svn_temp_serializer__get context = (buffer context, context)"


section \<open>The deserialization accessors\<close>

text \<open>
  Both accessors work on a memory that holds a copy of the blob.  \<open>base\<close> (the C
  parameter \<^verbatim>\<open>buffer\<close>) is the address of the structure that owns the slot, \<open>ptr\<close> the
  address of the slot.  The model of each returns the memory it leaves behind; the
  read-only accessor returns its result with it.  The comparison of
  \<^verbatim>\<open>assert(*ptr > buffer)\<close> is the unsigned comparison of the two addresses.
\<close>

definition svn_temp_deserializer__resolve :: "memory \<Rightarrow> addr \<Rightarrow> addr \<Rightarrow> fault + memory" where
  "svn_temp_deserializer__resolve h base ptr =
     (if load_size_t h ptr \<noteq> 0
      then let h' = store_size_t h ptr (base + load_size_t h ptr)
           in if load_size_t h' ptr > base then Inr h' else Inl AssertionFailed
      else Inr (store_size_t h ptr 0))"

definition svn_temp_deserializer__ptr :: "memory \<Rightarrow> addr \<Rightarrow> addr \<Rightarrow> addr \<times> memory" where
  "svn_temp_deserializer__ptr h base ptr =
     (if load_size_t h ptr = 0 then 0 else base + load_size_t h ptr, h)"


section \<open>Reachable contexts\<close>

text \<open>
  The contexts a caller can get to: \<^verbatim>\<open>svn_temp_serializer__init\<close> followed by any
  sequence of operations that return.  The caller's memory may differ from call to call.
\<close>

inductive reachable :: "svn_temp_serializer__context_t \<Rightarrow> bool" where
  Begin: "reachable (svn_temp_serializer__init h root struct_size suggested_buffer_size p)"
| Push: "reachable c \<Longrightarrow> svn_temp_serializer__push h c source_pointer struct_size = Inr c'
         \<Longrightarrow> reachable c'"
| AddString: "reachable c \<Longrightarrow> svn_temp_serializer__add_string h c s = Some (Inr c')
         \<Longrightarrow> reachable c'"
| SetNull: "reachable c \<Longrightarrow> svn_temp_serializer__set_null c ptr = Inr c' \<Longrightarrow> reachable c'"
| Pop: "reachable c \<Longrightarrow> svn_temp_serializer__pop c = Inr c' \<Longrightarrow> reachable c'"
| Finish: "reachable c \<Longrightarrow> svn_temp_serializer__get c = (b, c') \<Longrightarrow> reachable c'"


section \<open>Example data\<close>

text \<open>
  A caller's memory for the examples.  A parent structure of 24 bytes at address
  \<open>0x1000\<close>: an integer 1, a pointer field at \<open>0x1008\<close> holding \<open>0x2000\<close>, and a string
  field at \<open>0x1010\<close> holding \<open>0x3000\<close>.  A child structure of 16 bytes at \<open>0x2000\<close>: an
  integer 2 and a pointer field at \<open>0x2008\<close> that is NULL.  The string \<open>ab\<close> with its
  terminator at \<open>0x3000\<close>.
\<close>

definition ex_mem :: memory where
  "ex_mem = (\<lambda>a. 0)(0x1000 := 1, 0x1009 := 0x20, 0x1011 := 0x30,
                      0x2000 := 2,
                      0x3000 := 0x61, 0x3001 := 0x62)"

definition ex_pool :: apr_pool_t where
  "ex_pool = (\<lambda>i. 0xAA)"

text \<open>The context right after Begin with the parent as root, and the one without a root.\<close>

definition ex_root :: svn_temp_serializer__context_t where
  "ex_root = svn_temp_serializer__init ex_mem 0x1000 24 0 ex_pool"

definition ex_bare :: svn_temp_serializer__context_t where
  "ex_bare = svn_temp_serializer__init ex_mem 0 0 0 ex_pool"

text \<open>\<open>ex_root\<close> after the child has been pushed, and after the string has been added.\<close>

definition ex_child :: svn_temp_serializer__context_t where
  "ex_child = (case svn_temp_serializer__push ex_mem ex_root 0x1008 16 of
                 Inr c \<Rightarrow> c | Inl f \<Rightarrow> ex_root)"

definition ex_labelled :: svn_temp_serializer__context_t where
  "ex_labelled = (case svn_temp_serializer__add_string ex_mem ex_root 0x1010 of
                    Some (Inr c) \<Rightarrow> c | _ \<Rightarrow> ex_root)"

text \<open>
  A memory holding a deserialized structure at \<open>0x8000\<close> whose slot at \<open>0x8008\<close> stores
  the relative offset 24 and whose slot at \<open>0x8010\<close> stores 0.
\<close>

definition ex_blob :: memory where
  "ex_blob = (\<lambda>a. 0)(0x8008 := 24)"


section \<open>Basic facts\<close>

subsection \<open>Encoding of pointer-sized values\<close>

lemma upt8: "[0..<8] = [0, 1, 2, 3, 4, 5, 6, 7]"
  by (simp add: upt_rec)

lemma length_size_t_bytes: "length (size_t_bytes v) = 8"
  by (simp add: size_t_bytes_def)

lemma nth_size_t_bytes: "i < 8 \<Longrightarrow> size_t_bytes v ! i = ucast (drop_bit (8 * i) v)"
  by (simp add: size_t_bytes_def)

lemma bit_size_t_of_bytes:
  "bit (size_t_of_bytes bs) n \<longleftrightarrow> n < 64 \<and> n div 8 < length bs \<and> bit (bs ! (n div 8)) (n mod 8)"
proof -
  have "bit (horner_sum uint (2 ^ LENGTH(8)) bs) n \<longleftrightarrow>
        n div LENGTH(8) < length bs \<and> bit (bs ! (n div LENGTH(8))) (n mod LENGTH(8))"
    by (rule bit_horner_sum_uint_exp_iff)
  then show ?thesis
    by (simp add: size_t_of_bytes_def bit_word_of_int_iff)
qed

lemma size_t_of_bytes_bytes: "size_t_of_bytes (size_t_bytes v) = v"
proof (rule bit_word_eqI)
  fix n assume n: "n < LENGTH(64)"
  then have d: "n div 8 < 8" by simp
  have "8 * (n div 8) + n mod 8 = n" by simp
  then show "bit (size_t_of_bytes (size_t_bytes v)) n = bit v n"
    using n d
    by (simp add: bit_size_t_of_bytes length_size_t_bytes nth_size_t_bytes
        bit_ucast_iff bit_drop_bit_eq)
qed

lemma buf_load_store: "buf_load (buf_store d off v) off = v"
proof -
  have "map (\<lambda>i. buf_store d off v (off + i)) [0..<8] = size_t_bytes v"
    by (rule nth_equalityI) (simp_all add: length_size_t_bytes buf_store_def)
  then show ?thesis
    by (simp add: buf_load_def size_t_of_bytes_bytes)
qed

lemma buf_store_other: "\<not> (off \<le> i \<and> i < off + 8) \<Longrightarrow> buf_store d off v i = d i"
  by (auto simp: buf_store_def)

lemma buf_store_inside: "k < 8 \<Longrightarrow> buf_store d off v (off + k) = size_t_bytes v ! k"
  by (simp add: buf_store_def)

lemma buf_load_cong:
  "(\<And>k. k < 8 \<Longrightarrow> d1 (off + k) = d2 (off + k)) \<Longrightarrow> buf_load d1 off = buf_load d2 off"
  unfolding buf_load_def by (rule arg_cong [where f = size_t_of_bytes]) simp

lemma word_of_nat_less_8: "i < 8 \<Longrightarrow> (word_of_nat i :: 64 word) < 8"
  by (simp add: word_less_nat_alt unat_of_nat)

lemma unat_word_of_nat_8: "i < 8 \<Longrightarrow> unat (word_of_nat i :: 64 word) = i"
  by (simp add: unat_of_nat)

lemma load_store_size_t: "load_size_t (store_size_t h a v) a = v"
proof -
  have "map (\<lambda>i. store_size_t h a v (a + of_nat i)) [0..<8] = size_t_bytes v"
    by (rule nth_equalityI)
       (simp_all add: length_size_t_bytes store_size_t_def word_of_nat_less_8 unat_word_of_nat_8)
  then show ?thesis
    by (simp add: load_size_t_def size_t_of_bytes_bytes)
qed

subsection \<open>The string scan\<close>

lemma strlen_Some:
  "strlen h p = Some n \<Longrightarrow> h (p + of_nat n) = 0 \<and> (\<forall>k<n. h (p + of_nat k) \<noteq> 0)"
proof (induction n arbitrary: p)
  case 0
  then show ?case
    by (subst (asm) strlen.simps) (simp split: if_splits bind_splits)
next
  case (Suc n)
  from Suc.prems have nz: "h p \<noteq> 0" and rest: "strlen h (p + 1) = Some n"
    by (subst (asm) strlen.simps, simp split: if_splits bind_splits)+
  from Suc.IH [OF rest] have z: "h (p + 1 + of_nat n) = 0"
    and nzs: "\<And>k. k < n \<Longrightarrow> h (p + 1 + of_nat k) \<noteq> 0" by simp_all
  have "h (p + of_nat k) \<noteq> 0" if "k < Suc n" for k
  proof (cases k)
    case 0 then show ?thesis using nz by simp
  next
    case (Suc j)
    then have "j < n" using that by simp
    from nzs [OF this] show ?thesis using Suc by (simp add: add.assoc)
  qed
  then show ?case using z by (simp add: add.assoc)
qed

subsection \<open>Alignment and the buffer\<close>

lemma APR_ALIGN_DEFAULT_ge: "n \<le> APR_ALIGN_DEFAULT n"
  unfolding APR_ALIGN_DEFAULT_def by presburger

lemma APR_ALIGN_DEFAULT_less: "APR_ALIGN_DEFAULT n < n + 8"
  unfolding APR_ALIGN_DEFAULT_def by presburger

lemma APR_ALIGN_DEFAULT_dvd: "8 dvd APR_ALIGN_DEFAULT n"
  unfolding APR_ALIGN_DEFAULT_def by simp

lemma APR_ALIGN_DEFAULT_aligned: "8 dvd n \<Longrightarrow> APR_ALIGN_DEFAULT n = n"
  unfolding APR_ALIGN_DEFAULT_def by presburger

lemma align_buffer_end_source [simp]: "source (align_buffer_end c) = source c"
  by (simp add: align_buffer_end_def Let_def)

lemma align_buffer_end_pool [simp]: "pool (align_buffer_end c) = pool c"
  by (simp add: align_buffer_end_def Let_def)

lemma align_buffer_end_len [simp]:
  "len (buffer (align_buffer_end c)) = APR_ALIGN_DEFAULT (len (buffer c))"
  by (simp add: align_buffer_end_def Let_def)

lemma align_buffer_end_data [simp]: "data (buffer (align_buffer_end c)) = data (buffer c)"
  by (simp add: align_buffer_end_def Let_def svn_stringbuf_ensure_def)

lemma appendbytes_len [simp]:
  "len (svn_stringbuf_appendbytes h str bytes count) = len str + count"
  by (simp add: svn_stringbuf_appendbytes_def Let_def)

lemma appendbytes_data_below:
  "i < len str \<Longrightarrow> data (svn_stringbuf_appendbytes h str bytes count) i = data str i"
  by (simp add: svn_stringbuf_appendbytes_def Let_def svn_stringbuf_ensure_def)

lemma appendbytes_data_new:
  "len str = l \<Longrightarrow> k < count \<Longrightarrow>
   data (svn_stringbuf_appendbytes h str bytes count) (l + k) = h (bytes + of_nat k)"
  by (simp add: svn_stringbuf_appendbytes_def Let_def svn_stringbuf_ensure_def)

lemma serialized_appendbytes:
  "serialized (svn_stringbuf_appendbytes h str bytes count)
     = serialized str @ map (\<lambda>k. h (bytes + of_nat k)) [0..<count]"
  by (rule nth_equalityI)
     (auto simp: serialized_def nth_append appendbytes_data_below
        svn_stringbuf_appendbytes_def Let_def svn_stringbuf_ensure_def)

lemma serialized_empty: "len str = 0 \<Longrightarrow> serialized str = []"
  by (simp add: serialized_def)

subsection \<open>The operations, step by step\<close>

lemma store_current_end_pointer_empty:
  "source c = [] \<Longrightarrow> store_current_end_pointer h c sp = Inr c"
  by (simp add: store_current_end_pointer_def)

lemma store_current_end_pointer_nonempty:
  "source c = e # upper \<Longrightarrow>
   store_current_end_pointer h c sp =
     (if slot_offset e sp < len (buffer c)
      then Inr (c\<lparr>buffer := (buffer c)\<lparr>data := buf_store (data (buffer c)) (slot_offset e sp)
              (if load_size_t h sp = 0 then 0
               else word_of_nat (len (buffer c)) - word_of_nat (target_offset e))\<rparr>\<rparr>)
      else Inl AssertionFailed)"
  by (simp add: store_current_end_pointer_def Let_def)

lemma store_current_end_pointer_Inr:
  assumes "store_current_end_pointer h c sp = Inr c1"
  shows "source c1 = source c" "len (buffer c1) = len (buffer c)" "pool c1 = pool c"
    "blocksize (buffer c1) = blocksize (buffer c)"
  using assms
  by (auto simp: store_current_end_pointer_def Let_def split: list.splits if_splits)

lemma push_unfold:
  "svn_temp_serializer__push h c sp sz =
     (case store_current_end_pointer h (if load_size_t h sp \<noteq> 0 then align_buffer_end c else c) sp of
        Inl f \<Rightarrow> Inl f
      | Inr c1 \<Rightarrow> Inr (let c2 = c1\<lparr>source := \<lparr>source_struct = load_size_t h sp,
                                               target_offset = len (buffer c1)\<rparr> # source c1\<rparr>
                        in if load_size_t h sp \<noteq> 0
                           then c2\<lparr>buffer := svn_stringbuf_appendbytes h (buffer c2) (load_size_t h sp) sz\<rparr>
                           else c2))"
  by (simp add: svn_temp_serializer__push_def Let_def split: sum.split)

lemma push_Inr:
  assumes "svn_temp_serializer__push h c sp sz = Inr c'"
  shows "source c' = \<lparr>source_struct = load_size_t h sp,
                       target_offset = (if load_size_t h sp = 0 then len (buffer c)
                                        else APR_ALIGN_DEFAULT (len (buffer c)))\<rparr> # source c"
    and "len (buffer c') = (if load_size_t h sp = 0 then len (buffer c)
                            else APR_ALIGN_DEFAULT (len (buffer c)) + sz)"
    and "pool c' = pool c"
  using assms
  by (auto simp: push_unfold Let_def store_current_end_pointer_Inr split: sum.splits if_splits)

lemma push_nonempty_Inr:
  assumes "source c = e # upper" and "svn_temp_serializer__push h c sp sz = Inr c'"
  shows "slot_offset e sp < (if load_size_t h sp = 0 then len (buffer c)
                             else APR_ALIGN_DEFAULT (len (buffer c)))"
    and "\<And>i. i < (if load_size_t h sp = 0 then len (buffer c)
                             else APR_ALIGN_DEFAULT (len (buffer c))) \<Longrightarrow>
           data (buffer c') i =
           buf_store (data (buffer c)) (slot_offset e sp)
             (if load_size_t h sp = 0 then 0
              else word_of_nat (APR_ALIGN_DEFAULT (len (buffer c))) - word_of_nat (target_offset e)) i"
  using assms
  by (auto simp: push_unfold Let_def store_current_end_pointer_nonempty appendbytes_data_below
      split: if_splits)

lemma push_nonempty_returns:
  assumes "source c = e # upper"
    and "slot_offset e sp < (if load_size_t h sp = 0 then len (buffer c)
                             else APR_ALIGN_DEFAULT (len (buffer c)))"
  shows "\<exists>c'. svn_temp_serializer__push h c sp sz = Inr c'"
  using assms
  by (auto simp: push_unfold Let_def store_current_end_pointer_nonempty split: if_splits)

lemma add_string_unfold:
  "svn_temp_serializer__add_string h c s =
     (case store_current_end_pointer h c s of
        Inl f \<Rightarrow> Some (Inl f)
      | Inr c1 \<Rightarrow>
          if load_size_t h s \<noteq> 0
          then (case strlen h (load_size_t h s) of
                  None \<Rightarrow> None
                | Some n \<Rightarrow> Some (Inr (c1\<lparr>buffer :=
                    svn_stringbuf_appendbytes h (buffer c1) (load_size_t h s) (n + 1)\<rparr>)))
          else Some (Inr c1))"
  by (simp add: svn_temp_serializer__add_string_def Let_def split: sum.split)

lemma add_string_Inr:
  assumes "svn_temp_serializer__add_string h c s = Some (Inr c')"
  shows "source c' = source c" and "pool c' = pool c"
    and "load_size_t h s = 0 \<Longrightarrow> len (buffer c') = len (buffer c)"
    and "load_size_t h s \<noteq> 0 \<Longrightarrow>
           \<exists>n. strlen h (load_size_t h s) = Some n \<and> len (buffer c') = len (buffer c) + n + 1 \<and>
               (\<forall>k<n + 1. data (buffer c') (len (buffer c) + k) = h (load_size_t h s + of_nat k))"
  using assms
  by (auto simp: add_string_unfold store_current_end_pointer_Inr appendbytes_data_new
      split: sum.splits if_splits option.splits)

lemma add_string_nonempty_Inr:
  assumes "source c = e # upper" and "svn_temp_serializer__add_string h c s = Some (Inr c')"
  shows "slot_offset e s < len (buffer c)"
    and "\<And>i. i < len (buffer c) \<Longrightarrow>
           data (buffer c') i =
           buf_store (data (buffer c)) (slot_offset e s)
             (if load_size_t h s = 0 then 0
              else word_of_nat (len (buffer c)) - word_of_nat (target_offset e)) i"
  using assms
  by (auto simp: add_string_unfold store_current_end_pointer_nonempty appendbytes_data_below
      split: if_splits option.splits)

lemma add_string_nonempty_returns:
  assumes "source c = e # upper" and "slot_offset e s < len (buffer c)"
    and "load_size_t h s = 0 \<or> strlen h (load_size_t h s) = Some n"
  shows "\<exists>c'. svn_temp_serializer__add_string h c s = Some (Inr c')"
  using assms
  by (auto simp: add_string_unfold store_current_end_pointer_nonempty)

lemma set_null_Inr:
  assumes "svn_temp_serializer__set_null c ptr = Inr c'"
  shows "source c' = source c" and "len (buffer c') = len (buffer c)"
  using assms
  by (auto simp: svn_temp_serializer__set_null_def Let_def split: list.splits if_splits)

lemma pop_Inr:
  assumes "svn_temp_serializer__pop c = Inr c'"
  shows "\<exists>e. source c = e # source c'" and "buffer c' = buffer c"
  using assms
  by (auto simp: svn_temp_serializer__pop_def split: list.splits)

lemma init_offsets:
  "\<forall>e\<in>set (source (svn_temp_serializer__init h root struct_size suggested_buffer_size p)).
     target_offset e = 0"
  by (simp add: svn_temp_serializer__init_def Let_def)

lemma reachable_offsets:
  "reachable c \<Longrightarrow> \<forall>e\<in>set (source c). target_offset e \<le> len (buffer c)"
proof (induction rule: reachable.induct)
  case (Begin h root struct_size suggested_buffer_size p)
  then show ?case using init_offsets [of h root struct_size suggested_buffer_size p] by simp
next
  case (Push c h source_pointer struct_size c')
  from push_Inr(1,2) [OF Push.hyps(2)] Push.IH APR_ALIGN_DEFAULT_ge [of "len (buffer c)"]
  show ?case by (auto split: if_splits dest: bspec)
next
  case (AddString c h s c')
  have "len (buffer c) \<le> len (buffer c')"
    using add_string_Inr(3,4) [OF AddString.hyps(2)] by (cases "load_size_t h s = 0") auto
  with AddString.IH add_string_Inr(1) [OF AddString.hyps(2)] show ?case
    by (auto dest: bspec)
next
  case (SetNull c ptr c')
  with set_null_Inr [OF SetNull.hyps(2)] show ?case by simp
next
  case (Pop c c')
  from pop_Inr [OF Pop.hyps(2)] obtain e where "source c = e # source c'" "buffer c' = buffer c"
    by blast
  with Pop.IH show ?case by simp
next
  case (Finish c b c')
  then show ?case by (simp add: svn_temp_serializer__get_def)
qed

subsection \<open>The examples, evaluated\<close>

lemma ex_load_child: "load_size_t ex_mem 0x1008 = 0x2000"
  by (simp add: load_size_t_def ex_mem_def upt8 size_t_of_bytes_def)

lemma ex_load_label: "load_size_t ex_mem 0x1010 = 0x3000"
  by (simp add: load_size_t_def ex_mem_def upt8 size_t_of_bytes_def)

lemma ex_load_null: "load_size_t ex_mem 0x2008 = 0"
  by (simp add: load_size_t_def ex_mem_def upt8 size_t_of_bytes_def)

lemma ex_strlen: "strlen ex_mem 0x3000 = Some 2"
  by (simp add: strlen.simps ex_mem_def)

lemma ex_child_bytes:
  "map (\<lambda>k. ex_mem (0x2000 + of_nat k)) [0..<8] = [2, 0, 0, 0, 0, 0, 0, 0]"
  by (simp add: upt8 ex_mem_def)

lemma ex_string_bytes: "map (\<lambda>k. ex_mem (0x3000 + of_nat k)) [0..<3] = [0x61, 0x62, 0]"
  by (simp add: upt_rec ex_mem_def)

lemma ex_blob_slot: "load_size_t ex_blob 0x8008 = 24"
  by (simp add: load_size_t_def ex_blob_def upt8 size_t_of_bytes_def)

lemma ex_blob_null: "load_size_t ex_blob 0x8010 = 0"
  by (simp add: load_size_t_def ex_blob_def upt8 size_t_of_bytes_def)

lemma ex_root_source: "source ex_root = [\<lparr>source_struct = 0x1000, target_offset = 0\<rparr>]"
  by (simp add: ex_root_def svn_temp_serializer__init_def Let_def)

lemma ex_root_len: "len (buffer ex_root) = 24"
  by (simp add: ex_root_def svn_temp_serializer__init_def Let_def svn_stringbuf_create_ensure_def)

lemma ex_bare_source: "source ex_bare = []"
  by (simp add: ex_bare_def svn_temp_serializer__init_def Let_def)

lemma ex_bare_len: "len (buffer ex_bare) = 0"
  by (simp add: ex_bare_def svn_temp_serializer__init_def Let_def svn_stringbuf_create_ensure_def)

lemma ex_slot_child: "slot_offset \<lparr>source_struct = 0x1000, target_offset = 0\<rparr> 0x1008 = 8"
  by (simp add: slot_offset_def)

lemma ex_slot_label: "slot_offset \<lparr>source_struct = 0x1000, target_offset = 0\<rparr> 0x1010 = 16"
  by (simp add: slot_offset_def)

lemma ex_slot_far: "slot_offset \<lparr>source_struct = 0x1000, target_offset = 0\<rparr> 0x1020 = 32"
  by (simp add: slot_offset_def)

lemma ex_slot_null: "slot_offset \<lparr>source_struct = 0x2000, target_offset = 24\<rparr> 0x2008 = 32"
  by (simp add: slot_offset_def)

lemma ex_push_root: "svn_temp_serializer__push ex_mem ex_root 0x1008 16 = Inr ex_child"
proof -
  have "\<exists>c'. svn_temp_serializer__push ex_mem ex_root 0x1008 16 = Inr c'"
    by (rule push_nonempty_returns [OF ex_root_source])
       (simp add: ex_slot_child ex_load_child ex_root_len APR_ALIGN_DEFAULT_def)
  then show ?thesis by (auto simp: ex_child_def)
qed

lemma ex_child_source:
  "source ex_child = [\<lparr>source_struct = 0x2000, target_offset = 24\<rparr>,
                      \<lparr>source_struct = 0x1000, target_offset = 0\<rparr>]"
  using push_Inr(1) [OF ex_push_root]
  by (simp add: ex_load_child ex_root_len ex_root_source APR_ALIGN_DEFAULT_def)

lemma ex_child_len: "len (buffer ex_child) = 40"
  using push_Inr(2) [OF ex_push_root]
  by (simp add: ex_load_child ex_root_len APR_ALIGN_DEFAULT_def)

lemma ex_add_label: "svn_temp_serializer__add_string ex_mem ex_root 0x1010 = Some (Inr ex_labelled)"
proof -
  have "\<exists>c'. svn_temp_serializer__add_string ex_mem ex_root 0x1010 = Some (Inr c')"
    by (rule add_string_nonempty_returns [OF ex_root_source, where n = 2])
       (simp_all add: ex_slot_label ex_load_label ex_root_len ex_strlen)
  then show ?thesis by (auto simp: ex_labelled_def)
qed

lemma ex_labelled_source: "source ex_labelled = [\<lparr>source_struct = 0x1000, target_offset = 0\<rparr>]"
  using add_string_Inr(1) [OF ex_add_label] by (simp add: ex_root_source)

lemma ex_labelled_len: "len (buffer ex_labelled) = 27"
  using add_string_Inr(4) [OF ex_add_label]
  by (simp add: ex_load_label ex_strlen ex_root_len)


section \<open>Begin\<close>

text \<open>
  Claim C5.  \<^verbatim>\<open>svn_temp_serializer__init\<close> creates the buffer with capacity
  \<open>max suggested_buffer_size struct_size\<close>.  With a root structure the buffer holds
  exactly the \<open>struct_size\<close> bytes of the root, copied from the caller's memory to offset
  0, and the stack is the single entry with the root as source and target offset 0.
  Without a root structure the stack is empty, the buffer has length 0 and nothing has
  been written to its block.
\<close>

theorem init_spec:
  "blocksize (buffer (svn_temp_serializer__init h root struct_size suggested_buffer_size p))
     = max suggested_buffer_size struct_size \<and>
   pool (svn_temp_serializer__init h root struct_size suggested_buffer_size p) = p \<and>
   (root \<noteq> 0 \<longrightarrow>
      source (svn_temp_serializer__init h root struct_size suggested_buffer_size p)
        = [\<lparr>source_struct = root, target_offset = 0\<rparr>] \<and>
      len (buffer (svn_temp_serializer__init h root struct_size suggested_buffer_size p)) = struct_size \<and>
      serialized (buffer (svn_temp_serializer__init h root struct_size suggested_buffer_size p))
        = map (\<lambda>i. h (root + of_nat i)) [0..<struct_size]) \<and>
   (root = 0 \<longrightarrow>
      source (svn_temp_serializer__init h root struct_size suggested_buffer_size p) = [] \<and>
      len (buffer (svn_temp_serializer__init h root struct_size suggested_buffer_size p)) = 0 \<and>
      data (buffer (svn_temp_serializer__init h root struct_size suggested_buffer_size p)) = p)"
  by (simp add: svn_temp_serializer__init_def Let_def svn_stringbuf_appendbytes_def
      svn_stringbuf_ensure_def svn_stringbuf_create_ensure_def serialized_def max_def)

theorem init_spec_witness:
  "blocksize (buffer ex_root) = 24 \<and>
   source ex_root = [\<lparr>source_struct = 0x1000, target_offset = 0\<rparr>] \<and>
   serialized (buffer ex_root) =
     [1, 0, 0, 0, 0, 0, 0, 0, 0, 0x20, 0, 0, 0, 0, 0, 0, 0, 0x30, 0, 0, 0, 0, 0, 0] \<and>
   blocksize (buffer (svn_temp_serializer__init ex_mem 0 24 100 ex_pool)) = 100 \<and>
   source ex_bare = [] \<and> len (buffer ex_bare) = 0"
  using init_spec [of ex_mem "0x1000" 24 0 ex_pool] init_spec [of ex_mem 0 0 0 ex_pool]
    init_spec [of ex_mem 0 24 100 ex_pool]
  by (simp add: ex_root_def ex_bare_def ex_mem_def upt_rec)


section \<open>Push\<close>

text \<open>
  Claim C1.  Let a Push be issued on a stack with top entry \<open>e\<close>, and let it return.
  Write \<open>child\<close> for the pointer stored in the field, \<open>pos\<close> for the buffer length at the
  moment the slot is patched (the length padded to the alignment boundary when the child
  is non-null, the length itself otherwise) and \<open>slot\<close> for
  \<open>(source_pointer - source_struct e) + target_offset e\<close>.  Then \<open>slot\<close> lies below \<open>pos\<close>;
  the new top entry starts the child's image at \<open>pos\<close>; and the value patched into the
  slot is 0 for a null child and \<open>pos - target_offset e\<close> otherwise, that is, the start of
  the child's image counted from the start of the image of \<open>e\<close>, not from the start of
  the blob.  The patched value is read back from the returned buffer byte by byte for
  every byte of the slot below \<open>pos\<close>, and as a whole when the whole slot lies below
  \<open>pos\<close>.
\<close>

theorem push_patch_slot:
  fixes e :: source_stack_t and source_pointer :: addr and h :: memory
    and c :: svn_temp_serializer__context_t
  defines "slot \<equiv> unat ((source_pointer - source_struct e) + word_of_nat (target_offset e) :: 64 word)"
  defines "child \<equiv> load_size_t h source_pointer"
  defines "pos \<equiv> (if child = 0 then len (buffer c) else APR_ALIGN_DEFAULT (len (buffer c)))"
  defines "v \<equiv> (if child = 0 then 0 else word_of_nat pos - word_of_nat (target_offset e) :: 64 word)"
  assumes stack: "source c = e # upper"
      and push: "svn_temp_serializer__push h c source_pointer struct_size = Inr c'"
  shows "slot < pos \<and>
         source c' = \<lparr>source_struct = child, target_offset = pos\<rparr> # e # upper \<and>
         (\<forall>k<8. slot + k < pos \<longrightarrow> data (buffer c') (slot + k) = size_t_bytes v ! k) \<and>
         (slot + 8 \<le> pos \<longrightarrow> buf_load (data (buffer c')) slot = v) \<and>
         (child \<noteq> 0 \<and> target_offset e \<le> pos \<and> pos < 2 ^ 64 \<longrightarrow> unat v = pos - target_offset e)"
proof -
  have so: "slot_offset e source_pointer = slot"
    by (simp add: slot_offset_def slot_def)
  define d where "d = buf_store (data (buffer c)) slot v"
  have lt: "slot < pos"
    using push_nonempty_Inr(1) [OF stack push] by (simp add: so pos_def child_def)
  have src': "source c' = \<lparr>source_struct = child, target_offset = pos\<rparr> # e # upper"
    using push_Inr(1) [OF push] stack by (simp add: pos_def child_def)
  have below: "data (buffer c') i = d i" if "i < pos" for i
    using push_nonempty_Inr(2) [OF stack push, of i] that
    by (simp add: so pos_def child_def d_def v_def split: if_splits)
  have bytes: "\<forall>k<8. slot + k < pos \<longrightarrow> data (buffer c') (slot + k) = size_t_bytes v ! k"
    by (simp add: below d_def buf_store_inside)
  have load: "buf_load (data (buffer c')) slot = v" if "slot + 8 \<le> pos"
  proof -
    have "buf_load (data (buffer c')) slot = buf_load d slot"
      using that by (intro buf_load_cong below) simp
    then show ?thesis by (simp add: d_def buf_load_store)
  qed
  have rel: "unat v = pos - target_offset e" if "child \<noteq> 0" "target_offset e \<le> pos" "pos < 2 ^ 64"
  proof -
    have "v = word_of_nat (pos - target_offset e)"
      using that by (simp add: v_def)
    moreover have "pos - target_offset e < 2 ^ 64" using that by simp
    ultimately show ?thesis by (simp add: of_nat_inverse)
  qed
  show ?thesis using lt src' bytes load rel by blast
qed

theorem push_patch_slot_witness:
  "source ex_child = [\<lparr>source_struct = 0x2000, target_offset = 24\<rparr>,
                      \<lparr>source_struct = 0x1000, target_offset = 0\<rparr>] \<and>
   buf_load (data (buffer ex_child)) 8 = 24 \<and>
   data (buffer ex_child) 8 = 24 \<and> data (buffer ex_child) 9 = 0 \<and>
   unat (word_of_nat 24 - word_of_nat 0 :: 64 word) = 24 - 0 \<and>
   (\<exists>c'. svn_temp_serializer__push ex_mem ex_child 0x2008 16 = Inr c' \<and>
         source c' = \<lparr>source_struct = 0, target_offset = 40\<rparr> # source ex_child \<and>
         buf_load (data (buffer c')) 32 = 0)"
proof -
  have "\<exists>c'. svn_temp_serializer__push ex_mem ex_child 0x2008 16 = Inr c'"
    by (rule push_nonempty_returns [OF ex_child_source])
       (simp add: ex_slot_null ex_load_null ex_child_len)
  then obtain c' where c': "svn_temp_serializer__push ex_mem ex_child 0x2008 16 = Inr c'" ..
  have s1: "unat ((0x1008 - 0x1000) + word_of_nat 0 :: 64 word) = 8" by simp
  have s2: "unat ((0x2008 - 0x2000) + word_of_nat 24 :: 64 word) = 32" by simp
  have b: "size_t_bytes 24 ! 0 = 24" "size_t_bytes 24 ! 1 = 0"
    by (simp_all add: nth_size_t_bytes)
  from push_patch_slot [OF ex_root_source ex_push_root]
  have root: "buf_load (data (buffer ex_child)) 8 = 24 \<and>
      (\<forall>k<8. data (buffer ex_child) (8 + k) = size_t_bytes 24 ! k) \<and>
      unat (word_of_nat 24 - word_of_nat 0 :: 64 word) = 24 - 0"
    by (simp add: s1 ex_load_child ex_root_len APR_ALIGN_DEFAULT_def)
  then have "data (buffer ex_child) (8 + 0) = 24" "data (buffer ex_child) (8 + 1) = 0"
    using b by (auto dest: spec [where x = 0] spec [where x = 1])
  then have bytes: "data (buffer ex_child) 8 = 24" "data (buffer ex_child) 9 = 0"
    by simp_all
  from push_patch_slot [OF ex_child_source c'] c'
  have null: "source c' = \<lparr>source_struct = 0, target_offset = 40\<rparr> # source ex_child \<and>
         buf_load (data (buffer c')) 32 = 0"
    by (simp add: s2 ex_load_null ex_child_len ex_child_source)
  show ?thesis
    using root bytes null c' ex_child_source by blast
qed

text \<open>
  Claim C2 says that a Push on an empty stack is a fatal precondition failure.  The code
  does not fail there: \<^verbatim>\<open>store_current_end_pointer\<close> returns early when the stack is NULL
  ("there will be no parent structure to relate it to"), and \<^verbatim>\<open>svn_temp_serializer__init\<close>
  says of a context without a root that "the root struct will be set with the first
  push() op".  On the context without a root, a Push of the child structure returns and
  makes the child the root of the blob.
\<close>

theorem push_empty_stack_counterexample:
  "source ex_bare = [] \<and>
   \<not> isl (svn_temp_serializer__push ex_mem ex_bare 0x1008 8) \<and>
   source (projr (svn_temp_serializer__push ex_mem ex_bare 0x1008 8))
     = [\<lparr>source_struct = 0x2000, target_offset = 0\<rparr>] \<and>
   serialized (buffer (projr (svn_temp_serializer__push ex_mem ex_bare 0x1008 8)))
     = [2, 0, 0, 0, 0, 0, 0, 0]"
  by (simp add: push_unfold Let_def ex_load_child ex_bare_source
      store_current_end_pointer_empty ex_bare_len APR_ALIGN_DEFAULT_def
      serialized_appendbytes serialized_empty ex_child_bytes)

text \<open>
  Claim C2, amended.  A Push on an empty stack always returns.  No slot is patched: every
  byte below the start of the child's image is what it was.  The stack becomes the single
  entry for the child, whose image starts at the buffer's length (padded to the alignment
  boundary when the child is non-null), and a non-null child's \<open>struct_size\<close> bytes are
  appended there.
\<close>

theorem push_empty_stack:
  assumes "source c = []"
  shows "\<exists>c'. svn_temp_serializer__push h c source_pointer struct_size = Inr c' \<and>
     source c' = [\<lparr>source_struct = load_size_t h source_pointer,
                   target_offset = (if load_size_t h source_pointer = 0 then len (buffer c)
                                    else APR_ALIGN_DEFAULT (len (buffer c)))\<rparr>] \<and>
     len (buffer c') = (if load_size_t h source_pointer = 0 then len (buffer c)
                        else APR_ALIGN_DEFAULT (len (buffer c)) + struct_size) \<and>
     (\<forall>i. i < target_offset (hd (source c')) \<longrightarrow> data (buffer c') i = data (buffer c) i) \<and>
     (load_size_t h source_pointer \<noteq> 0 \<longrightarrow>
        (\<forall>k. k < struct_size \<longrightarrow> data (buffer c') (target_offset (hd (source c')) + k)
                            = h (load_size_t h source_pointer + of_nat k)))"
  using assms
  by (simp add: push_unfold Let_def store_current_end_pointer_empty
      appendbytes_data_below appendbytes_data_new)

theorem push_empty_stack_witness:
  "\<exists>c'. svn_temp_serializer__push ex_mem ex_bare 0x1008 16 = Inr c' \<and>
     source c' = [\<lparr>source_struct = 0x2000, target_offset = 0\<rparr>] \<and>
     len (buffer c') = 16 \<and> data (buffer c') 0 = 2"
proof -
  have "ex_mem 0x2000 = 2" by (simp add: ex_mem_def)
  then show ?thesis
    using push_empty_stack [OF ex_bare_source, of ex_mem "0x1008" 16]
    by (auto simp: ex_load_child ex_bare_len APR_ALIGN_DEFAULT_def)
qed


section \<open>Alignment padding\<close>

text \<open>
  Claim C4.  A Push that returns has padded the buffer exactly when the child is
  non-null: then the child's image starts at \<open>APR_ALIGN_DEFAULT\<close> of the old length, which
  is the least multiple of 8 not below the old length (so the old length itself when that
  is aligned), and the new length is that plus \<open>struct_size\<close>; for a null child the new
  entry's offset and the new length are the old length.  An AddString that returns has
  not padded: the string and its terminator start exactly at the old length, and a null
  string leaves the length as it was.
\<close>

theorem alignment_spec:
  "(svn_temp_serializer__push h c source_pointer struct_size = Inr c' \<longrightarrow>
      (load_size_t h source_pointer \<noteq> 0 \<longrightarrow>
         source c' = \<lparr>source_struct = load_size_t h source_pointer,
                       target_offset = APR_ALIGN_DEFAULT (len (buffer c))\<rparr> # source c \<and>
         len (buffer c') = APR_ALIGN_DEFAULT (len (buffer c)) + struct_size \<and>
         8 dvd APR_ALIGN_DEFAULT (len (buffer c)) \<and>
         len (buffer c) \<le> APR_ALIGN_DEFAULT (len (buffer c)) \<and>
         APR_ALIGN_DEFAULT (len (buffer c)) < len (buffer c) + 8 \<and>
         (8 dvd len (buffer c) \<longrightarrow> APR_ALIGN_DEFAULT (len (buffer c)) = len (buffer c))) \<and>
      (load_size_t h source_pointer = 0 \<longrightarrow>
         source c' = \<lparr>source_struct = 0, target_offset = len (buffer c)\<rparr> # source c \<and>
         len (buffer c') = len (buffer c))) \<and>
   (svn_temp_serializer__add_string h c s = Some (Inr c'') \<longrightarrow>
      (load_size_t h s \<noteq> 0 \<longrightarrow>
         (\<exists>n. strlen h (load_size_t h s) = Some n \<and>
              len (buffer c'') = len (buffer c) + n + 1 \<and>
              (\<forall>k<n + 1. data (buffer c'') (len (buffer c) + k) = h (load_size_t h s + of_nat k)))) \<and>
      (load_size_t h s = 0 \<longrightarrow> len (buffer c'') = len (buffer c)))"
proof -
  have push: "source c' = \<lparr>source_struct = load_size_t h source_pointer,
                       target_offset = APR_ALIGN_DEFAULT (len (buffer c))\<rparr> # source c \<and>
         len (buffer c') = APR_ALIGN_DEFAULT (len (buffer c)) + struct_size"
    if "svn_temp_serializer__push h c source_pointer struct_size = Inr c'"
      "load_size_t h source_pointer \<noteq> 0"
    using push_Inr(1,2) [OF that(1)] that(2) by simp
  have push0: "source c' = \<lparr>source_struct = 0, target_offset = len (buffer c)\<rparr> # source c \<and>
         len (buffer c') = len (buffer c)"
    if "svn_temp_serializer__push h c source_pointer struct_size = Inr c'"
      "load_size_t h source_pointer = 0"
    using push_Inr(1,2) [OF that(1)] that(2) by simp
  have str: "(load_size_t h s \<noteq> 0 \<longrightarrow>
         (\<exists>n. strlen h (load_size_t h s) = Some n \<and>
              len (buffer c'') = len (buffer c) + n + 1 \<and>
              (\<forall>k<n + 1. data (buffer c'') (len (buffer c) + k) = h (load_size_t h s + of_nat k)))) \<and>
      (load_size_t h s = 0 \<longrightarrow> len (buffer c'') = len (buffer c))"
    if "svn_temp_serializer__add_string h c s = Some (Inr c'')"
    using add_string_Inr(3,4) [OF that] by blast
  show ?thesis
    using push push0 str APR_ALIGN_DEFAULT_dvd [of "len (buffer c)"]
      APR_ALIGN_DEFAULT_ge [of "len (buffer c)"] APR_ALIGN_DEFAULT_less [of "len (buffer c)"]
      APR_ALIGN_DEFAULT_aligned [of "len (buffer c)"]
    by blast
qed

theorem alignment_spec_witness:
  "len (buffer ex_root) = 24 \<and>
   source ex_child = \<lparr>source_struct = 0x2000, target_offset = 24\<rparr> # source ex_root \<and>
   len (buffer ex_child) = 24 + 16 \<and>
   len (buffer ex_labelled) = 27 \<and>
   (\<exists>c' c''. svn_temp_serializer__push ex_mem ex_labelled 0x1008 16 = Inr c' \<and>
        source c' = \<lparr>source_struct = 0x2000, target_offset = 32\<rparr> # source ex_labelled \<and>
        len (buffer c') = 48 \<and>
        svn_temp_serializer__add_string ex_mem ex_labelled 0x1010 = Some (Inr c'') \<and>
        len (buffer c'') = 30 \<and> data (buffer c'') 27 = 0x61) \<and>
   (\<exists>c'. svn_temp_serializer__push ex_mem ex_child 0x2008 16 = Inr c' \<and>
        source c' = \<lparr>source_struct = 0, target_offset = 40\<rparr> # source ex_child \<and>
        len (buffer c') = 40)"
proof -
  have "\<exists>c'. svn_temp_serializer__push ex_mem ex_labelled 0x1008 16 = Inr c'"
    by (rule push_nonempty_returns [OF ex_labelled_source])
       (simp add: ex_slot_child ex_load_child ex_labelled_len APR_ALIGN_DEFAULT_def)
  then obtain c1 where c1: "svn_temp_serializer__push ex_mem ex_labelled 0x1008 16 = Inr c1" ..
  have "\<exists>c'. svn_temp_serializer__add_string ex_mem ex_labelled 0x1010 = Some (Inr c')"
    by (rule add_string_nonempty_returns [OF ex_labelled_source, where n = 2])
       (simp_all add: ex_slot_label ex_load_label ex_labelled_len ex_strlen)
  then obtain c2 where c2: "svn_temp_serializer__add_string ex_mem ex_labelled 0x1010 = Some (Inr c2)" ..
  have "\<exists>c'. svn_temp_serializer__push ex_mem ex_child 0x2008 16 = Inr c'"
    by (rule push_nonempty_returns [OF ex_child_source])
       (simp add: ex_slot_null ex_load_null ex_child_len)
  then obtain c3 where c3: "svn_temp_serializer__push ex_mem ex_child 0x2008 16 = Inr c3" ..
  have a: "ex_mem 0x3000 = 0x61" by (simp add: ex_mem_def)
  have "len (buffer c2) = 30 \<and>
        (\<forall>k<3. data (buffer c2) (27 + k) = ex_mem (0x3000 + of_nat k))"
    using alignment_spec [of ex_mem ex_labelled "0x1008" 16 c1 "0x1010" c2] c2
    by (simp add: ex_load_label ex_labelled_len ex_strlen)
  then have "len (buffer c2) = 30 \<and> data (buffer c2) 27 = 0x61"
    using a by (auto dest: spec [where x = 0])
  moreover have "source c1 = \<lparr>source_struct = 0x2000, target_offset = 32\<rparr> # source ex_labelled \<and>
        len (buffer c1) = 48"
    using alignment_spec [of ex_mem ex_labelled "0x1008" 16 c1 "0x1010" c2] c1
    by (simp add: ex_load_child ex_labelled_len APR_ALIGN_DEFAULT_def)
  moreover have "source c3 = \<lparr>source_struct = 0, target_offset = 40\<rparr> # source ex_child \<and>
        len (buffer c3) = 40"
    using alignment_spec [of ex_mem ex_child "0x2008" 16 c3 "0x1010" c2] c3
    by (simp add: ex_load_null ex_child_len)
  moreover have "source ex_child = \<lparr>source_struct = 0x2000, target_offset = 24\<rparr> # source ex_root \<and>
        len (buffer ex_child) = 24 + 16"
    using alignment_spec [of ex_mem ex_root "0x1008" 16 ex_child "0x1010" c2] ex_push_root
    by (simp add: ex_load_child ex_root_len)
  ultimately show ?thesis using c1 c2 c3 ex_labelled_len ex_root_len by blast
qed

section \<open>AddString\<close>

text \<open>
  Claim C8.  Let AddString be issued against a top entry \<open>e\<close> whose slot
  \<open>(s - source_struct e) + target_offset e\<close> lies below the buffer's length, for a string
  that is null or whose terminator the scan finds after \<open>n\<close> bytes.  Then the call
  returns, and the stack of the returned context is the one it was.  The slot is patched
  with 0 for a null string and with the buffer's length minus \<open>target_offset e\<close>
  otherwise: the computation of Push, both operations going through
  \<^verbatim>\<open>store_current_end_pointer\<close>.  For a non-null string exactly the \<open>n\<close> non-zero content
  bytes and the terminator (\<open>n + 1\<close> bytes) are appended at the old end; for a null
  string nothing is appended.
\<close>

theorem add_string_spec:
  fixes h :: memory and s :: addr and c :: svn_temp_serializer__context_t
    and e :: source_stack_t
  defines "str \<equiv> load_size_t h s"
  defines "v \<equiv> (if str = 0 then 0
               else word_of_nat (len (buffer c)) - word_of_nat (target_offset e) :: 64 word)"
  assumes stack: "source c = e # upper"
      and inside: "slot_offset e s < len (buffer c)"
      and terminated: "str = 0 \<or> strlen h str = Some n"
  shows "\<exists>c'. svn_temp_serializer__add_string h c s = Some (Inr c') \<and>
     source c' = source c \<and>
     slot_offset e s = unat ((s - source_struct e) + word_of_nat (target_offset e) :: 64 word) \<and>
     (\<forall>k<8. slot_offset e s + k < len (buffer c) \<longrightarrow>
        data (buffer c') (slot_offset e s + k) = size_t_bytes v ! k) \<and>
     (slot_offset e s + 8 \<le> len (buffer c) \<longrightarrow>
        buf_load (data (buffer c')) (slot_offset e s) = v) \<and>
     (str = 0 \<longrightarrow> len (buffer c') = len (buffer c)) \<and>
     (str \<noteq> 0 \<longrightarrow>
        (\<forall>k<n. h (str + of_nat k) \<noteq> 0) \<and> h (str + of_nat n) = 0 \<and>
        len (buffer c') = len (buffer c) + n + 1 \<and>
        (\<forall>k<n + 1. data (buffer c') (len (buffer c) + k) = h (str + of_nat k)))"
proof -
  from add_string_nonempty_returns [OF stack inside, of h n] terminated
  obtain c' where add: "svn_temp_serializer__add_string h c s = Some (Inr c')"
    by (auto simp: str_def)
  have same: "source c' = source c"
    by (rule add_string_Inr(1) [OF add])
  let ?d = "buf_store (data (buffer c)) (slot_offset e s) v"
  have below: "data (buffer c') i = ?d i" if "i < len (buffer c)" for i
    using add_string_nonempty_Inr(2) [OF stack add that] by (simp add: str_def v_def)
  have bytes: "\<forall>k<8. slot_offset e s + k < len (buffer c) \<longrightarrow>
        data (buffer c') (slot_offset e s + k) = size_t_bytes v ! k"
    by (simp add: below buf_store_inside)
  have whole: "buf_load (data (buffer c')) (slot_offset e s) = v"
    if "slot_offset e s + 8 \<le> len (buffer c)"
  proof -
    have "buf_load (data (buffer c')) (slot_offset e s) = buf_load ?d (slot_offset e s)"
      using that by (intro buf_load_cong below) simp
    then show ?thesis by (simp only: buf_load_store)
  qed
  have null: "len (buffer c') = len (buffer c)" if "str = 0"
    using add_string_Inr(3) [OF add] that by (simp add: str_def)
  have payload: "(\<forall>k<n. h (str + of_nat k) \<noteq> 0) \<and> h (str + of_nat n) = 0 \<and>
        len (buffer c') = len (buffer c) + n + 1 \<and>
        (\<forall>k<n + 1. data (buffer c') (len (buffer c) + k) = h (str + of_nat k))"
    if nz: "str \<noteq> 0"
  proof -
    from terminated nz have n: "strlen h str = Some n" by simp
    from add_string_Inr(4) [OF add] nz n
    have "len (buffer c') = len (buffer c) + n + 1 \<and>
        (\<forall>k<n + 1. data (buffer c') (len (buffer c) + k) = h (str + of_nat k))"
      by (auto simp: str_def)
    with strlen_Some [OF n] show ?thesis by blast
  qed
  have "slot_offset e s = unat ((s - source_struct e) + word_of_nat (target_offset e) :: 64 word)"
    by (simp add: slot_offset_def)
  with add same bytes whole null payload show ?thesis by blast
qed

theorem add_string_spec_witness:
  "(\<exists>c'. svn_temp_serializer__add_string ex_mem ex_root 0x1010 = Some (Inr c') \<and>
         source c' = source ex_root \<and>
         buf_load (data (buffer c')) 16 = 24 \<and>
         len (buffer c') = 24 + 2 + 1 \<and>
         data (buffer c') 24 = 0x61 \<and> data (buffer c') 25 = 0x62 \<and> data (buffer c') 26 = 0) \<and>
   (\<exists>c'. svn_temp_serializer__add_string ex_mem ex_child 0x2008 = Some (Inr c') \<and>
         source c' = source ex_child \<and>
         buf_load (data (buffer c')) 32 = 0 \<and>
         len (buffer c') = 40)"
proof -
  have i1: "slot_offset \<lparr>source_struct = 0x1000, target_offset = 0\<rparr> 0x1010 < len (buffer ex_root)"
    by (simp add: ex_slot_label ex_root_len)
  have t1: "load_size_t ex_mem 0x1010 = 0 \<or> strlen ex_mem (load_size_t ex_mem 0x1010) = Some 2"
    by (simp add: ex_load_label ex_strlen)
  have i2: "slot_offset \<lparr>source_struct = 0x2000, target_offset = 24\<rparr> 0x2008 < len (buffer ex_child)"
    by (simp add: ex_slot_null ex_child_len)
  have t2: "load_size_t ex_mem 0x2008 = 0 \<or> strlen ex_mem (load_size_t ex_mem 0x2008) = Some 0"
    by (simp add: ex_load_null)
  have m: "ex_mem 0x3000 = 0x61" "ex_mem 0x3001 = 0x62" "ex_mem 0x3002 = 0"
    by (simp_all add: ex_mem_def)
  from add_string_spec [OF ex_root_source i1 t1]
  obtain c1 where c1: "svn_temp_serializer__add_string ex_mem ex_root 0x1010 = Some (Inr c1)"
    "source c1 = source ex_root" "buf_load (data (buffer c1)) 16 = 24"
    "len (buffer c1) = 24 + 2 + 1"
    "\<forall>k<3. data (buffer c1) (24 + k) = ex_mem (0x3000 + of_nat k)"
    by (auto simp: ex_root_source ex_slot_label ex_load_label ex_root_len)
  have "data (buffer c1) (24 + 0) = ex_mem (0x3000 + of_nat 0)"
    "data (buffer c1) (24 + 1) = ex_mem (0x3000 + of_nat 1)"
    "data (buffer c1) (24 + 2) = ex_mem (0x3000 + of_nat 2)"
    using c1(5) [rule_format, of 0] c1(5) [rule_format, of 1] c1(5) [rule_format, of 2]
    by simp_all
  then have p: "data (buffer c1) 24 = 0x61" "data (buffer c1) 25 = 0x62" "data (buffer c1) 26 = 0"
    using m by simp_all
  from add_string_spec [OF ex_child_source i2 t2]
  obtain c2 where c2: "svn_temp_serializer__add_string ex_mem ex_child 0x2008 = Some (Inr c2)"
    "source c2 = source ex_child" "buf_load (data (buffer c2)) 32 = 0" "len (buffer c2) = 40"
    by (auto simp: ex_child_source ex_slot_null ex_load_null ex_child_len)
  from c1(1-4) p c2 show ?thesis by blast
qed

text \<open>
  Claim C10.  On an empty stack AddString never fails an assertion.  With a null string
  it returns the context it was given.  With a string whose terminator the scan finds
  after \<open>n\<close> bytes it returns; no slot is patched (every byte below the old length is
  what it was); the \<open>n\<close> content bytes and the terminator are appended at the old end, so
  that in a buffer that was empty the string's content begins at offset 0 of the blob.
\<close>

theorem add_string_empty_stack:
  assumes "source c = []"
  shows "(\<forall>f. svn_temp_serializer__add_string h c s \<noteq> Some (Inl f)) \<and>
     (load_size_t h s = 0 \<longrightarrow> svn_temp_serializer__add_string h c s = Some (Inr c)) \<and>
     (\<forall>n. load_size_t h s \<noteq> 0 \<and> strlen h (load_size_t h s) = Some n \<longrightarrow>
        (\<exists>c'. svn_temp_serializer__add_string h c s = Some (Inr c') \<and>
              source c' = [] \<and>
              len (buffer c') = len (buffer c) + n + 1 \<and>
              (\<forall>i<len (buffer c). data (buffer c') i = data (buffer c) i) \<and>
              (\<forall>k<n. data (buffer c') (len (buffer c) + k) = h (load_size_t h s + of_nat k) \<and>
                     h (load_size_t h s + of_nat k) \<noteq> 0) \<and>
              data (buffer c') (len (buffer c) + n) = 0 \<and>
              serialized (buffer c') =
                serialized (buffer c) @ map (\<lambda>k. h (load_size_t h s + of_nat k)) [0..<n + 1] \<and>
              (len (buffer c) = 0 \<longrightarrow>
                 serialized (buffer c') = map (\<lambda>k. h (load_size_t h s + of_nat k)) [0..<n + 1])))"
proof -
  have nofault: "svn_temp_serializer__add_string h c s \<noteq> Some (Inl f)" for f
    using assms
    by (simp add: add_string_unfold store_current_end_pointer_empty split: option.split)
  have null: "svn_temp_serializer__add_string h c s = Some (Inr c)" if "load_size_t h s = 0"
    using assms that by (simp add: add_string_unfold store_current_end_pointer_empty)
  have app: "\<exists>c'. svn_temp_serializer__add_string h c s = Some (Inr c') \<and>
              source c' = [] \<and>
              len (buffer c') = len (buffer c) + n + 1 \<and>
              (\<forall>i<len (buffer c). data (buffer c') i = data (buffer c) i) \<and>
              (\<forall>k<n. data (buffer c') (len (buffer c) + k) = h (load_size_t h s + of_nat k) \<and>
                     h (load_size_t h s + of_nat k) \<noteq> 0) \<and>
              data (buffer c') (len (buffer c) + n) = 0 \<and>
              serialized (buffer c') =
                serialized (buffer c) @ map (\<lambda>k. h (load_size_t h s + of_nat k)) [0..<n + 1] \<and>
              (len (buffer c) = 0 \<longrightarrow>
                 serialized (buffer c') = map (\<lambda>k. h (load_size_t h s + of_nat k)) [0..<n + 1])"
    if nz: "load_size_t h s \<noteq> 0" and n: "strlen h (load_size_t h s) = Some n" for n
  proof -
    let ?c' = "c\<lparr>buffer := svn_stringbuf_appendbytes h (buffer c) (load_size_t h s) (n + 1)\<rparr>"
    have eq: "svn_temp_serializer__add_string h c s = Some (Inr ?c')"
      using assms nz n by (simp add: add_string_unfold store_current_end_pointer_empty)
    have ser: "serialized (buffer ?c') =
        serialized (buffer c) @ map (\<lambda>k. h (load_size_t h s + of_nat k)) [0..<n + 1]"
      by (simp add: serialized_appendbytes)
    have "data (buffer ?c') (len (buffer c) + n) = 0"
      using strlen_Some [OF n] by (simp add: appendbytes_data_new)
    moreover have "\<forall>k<n. data (buffer ?c') (len (buffer c) + k) = h (load_size_t h s + of_nat k) \<and>
                     h (load_size_t h s + of_nat k) \<noteq> 0"
      using strlen_Some [OF n] by (simp add: appendbytes_data_new)
    moreover have "len (buffer c) = 0 \<longrightarrow>
        serialized (buffer ?c') = map (\<lambda>k. h (load_size_t h s + of_nat k)) [0..<n + 1]"
      unfolding ser by (simp add: serialized_empty)
    ultimately show ?thesis
      using eq ser assms by (simp add: appendbytes_data_below)
  qed
  show ?thesis using nofault null app by blast
qed

theorem add_string_empty_stack_witness:
  "svn_temp_serializer__add_string ex_mem ex_bare 0x2008 = Some (Inr ex_bare) \<and>
   (\<exists>c'. svn_temp_serializer__add_string ex_mem ex_bare 0x1010 = Some (Inr c') \<and>
         source c' = [] \<and> len (buffer c') = 3 \<and>
         serialized (buffer c') = [0x61, 0x62, 0])"
  using add_string_empty_stack [OF ex_bare_source, of ex_mem "0x2008"]
    add_string_empty_stack [OF ex_bare_source, of ex_mem "0x1010"]
  by (auto simp: ex_load_null ex_load_label ex_strlen ex_bare_len ex_string_bytes)

section \<open>SetNull\<close>

text \<open>
  Claim C7.  \<^verbatim>\<open>svn_temp_serializer__set_null\<close> fails its first assertion on an empty
  stack.  Against the top entry \<open>e\<close> it takes the slot offset
  \<open>(ptr - source_struct e) + target_offset e\<close> and fails its second assertion unless that
  offset is strictly below the buffer's length.  Otherwise the eight bytes at the slot
  read as 0 afterwards, every byte of the block outside the slot is what it was, and the
  buffer's length and capacity, the stack and the pool are unchanged.
\<close>

theorem set_null_spec:
  "(source c = [] \<longrightarrow> svn_temp_serializer__set_null c ptr = Inl AssertionFailed) \<and>
   (\<forall>e upper. source c = e # upper \<longrightarrow>
      slot_offset e ptr = unat ((ptr - source_struct e) + word_of_nat (target_offset e) :: 64 word) \<and>
      (\<not> slot_offset e ptr < len (buffer c) \<longrightarrow>
         svn_temp_serializer__set_null c ptr = Inl AssertionFailed) \<and>
      (slot_offset e ptr < len (buffer c) \<longrightarrow>
         (\<exists>c'. svn_temp_serializer__set_null c ptr = Inr c' \<and>
               buf_load (data (buffer c')) (slot_offset e ptr) = 0 \<and>
               (\<forall>i. \<not> (slot_offset e ptr \<le> i \<and> i < slot_offset e ptr + 8) \<longrightarrow>
                    data (buffer c') i = data (buffer c) i) \<and>
               len (buffer c') = len (buffer c) \<and>
               blocksize (buffer c') = blocksize (buffer c) \<and>
               source c' = source c \<and> pool c' = pool c)))"
  by (simp add: svn_temp_serializer__set_null_def Let_def buf_load_store buf_store_other
      slot_offset_def split: list.split)

theorem set_null_spec_witness:
  "svn_temp_serializer__set_null ex_bare 0x1008 = Inl AssertionFailed \<and>
   svn_temp_serializer__set_null ex_root 0x1020 = Inl AssertionFailed \<and>
   (\<exists>c'. svn_temp_serializer__set_null ex_root 0x1008 = Inr c' \<and>
         buf_load (data (buffer c')) 8 = 0 \<and>
         data (buffer c') 0 = data (buffer ex_root) 0 \<and>
         len (buffer c') = 24 \<and> source c' = source ex_root)"
  using set_null_spec [of ex_bare "0x1008"] set_null_spec [of ex_root "0x1020"]
    set_null_spec [of ex_root "0x1008"]
  by (auto simp: ex_bare_source ex_root_source ex_root_len ex_slot_child ex_slot_far)


section \<open>Pop\<close>

text \<open>
  Claim C9.  \<^verbatim>\<open>svn_temp_serializer__pop\<close> fails its assertion exactly when the stack is
  empty.  On a stack with top entry \<open>e\<close> above \<open>upper\<close> it returns the context whose stack
  is \<open>upper\<close>; the buffer (block contents, length and capacity) is the one it was.
\<close>

theorem pop_spec:
  "(svn_temp_serializer__pop c = Inl AssertionFailed \<longleftrightarrow> source c = []) \<and>
   (\<forall>e upper. source c = e # upper \<longrightarrow>
      (\<exists>c'. svn_temp_serializer__pop c = Inr c' \<and> source c' = upper \<and>
            buffer c' = buffer c \<and> pool c' = pool c))"
  by (simp add: svn_temp_serializer__pop_def split: list.split)

theorem pop_spec_witness:
  "(\<exists>c'. svn_temp_serializer__pop ex_child = Inr c' \<and>
         source c' = [\<lparr>source_struct = 0x1000, target_offset = 0\<rparr>] \<and>
         buffer c' = buffer ex_child \<and> pool c' = pool ex_child) \<and>
   svn_temp_serializer__pop ex_bare = Inl AssertionFailed"
  using pop_spec [of ex_child] pop_spec [of ex_bare] ex_child_source ex_bare_source
  by simp


section \<open>The stack never points behind the buffer's end\<close>

text \<open>
  Claim C6.  In every context reachable from Begin by Push, AddString, SetNull, Pop and
  Finish steps that return, a non-empty stack has a top entry whose \<open>target_offset\<close> is
  at most the buffer's length.
\<close>

theorem top_offset_within_buffer:
  assumes "reachable c" and "source c = e # upper"
  shows "target_offset e \<le> len (buffer c)"
  using reachable_offsets [OF assms(1)] assms(2) by simp

theorem top_offset_within_buffer_witness:
  "reachable ex_child \<and>
   source ex_child = [\<lparr>source_struct = 0x2000, target_offset = 24\<rparr>,
                      \<lparr>source_struct = 0x1000, target_offset = 0\<rparr>] \<and>
   target_offset \<lparr>source_struct = 0x2000, target_offset = 24\<rparr> \<le> len (buffer ex_child)"
proof -
  have "reachable ex_root"
    unfolding ex_root_def by (rule reachable.Begin)
  then have r: "reachable ex_child"
    using ex_push_root by (rule reachable.Push)
  from top_offset_within_buffer [OF r ex_child_source] r ex_child_source
  show ?thesis by simp
qed


section \<open>Deserialization\<close>

text \<open>
  Claim C3.  \<^verbatim>\<open>svn_temp_deserializer__ptr\<close> returns NULL when the offset stored in the
  slot is 0 and \<open>base\<close> plus the stored offset otherwise, and leaves the memory as it
  was.  \<^verbatim>\<open>svn_temp_deserializer__resolve\<close> stores exactly that value into the slot: it is
  the store of the value of \<^verbatim>\<open>svn_temp_deserializer__ptr\<close> at the slot, followed, for a
  non-zero offset, by the assertion that the stored pointer lies above \<open>base\<close>; whenever
  it returns, the slot reads as the value of \<^verbatim>\<open>svn_temp_deserializer__ptr\<close>.
\<close>

theorem deserializer_ptr_resolve:
  "fst (svn_temp_deserializer__ptr h base ptr) =
     (if load_size_t h ptr = 0 then 0 else base + load_size_t h ptr) \<and>
   snd (svn_temp_deserializer__ptr h base ptr) = h \<and>
   svn_temp_deserializer__resolve h base ptr =
     (if load_size_t h ptr \<noteq> 0 \<and> \<not> base < base + load_size_t h ptr then Inl AssertionFailed
      else Inr (store_size_t h ptr (fst (svn_temp_deserializer__ptr h base ptr)))) \<and>
   (\<forall>h'. svn_temp_deserializer__resolve h base ptr = Inr h' \<longrightarrow>
      load_size_t h' ptr = fst (svn_temp_deserializer__ptr h base ptr))"
  by (auto simp: svn_temp_deserializer__ptr_def svn_temp_deserializer__resolve_def Let_def
      load_store_size_t)

theorem deserializer_ptr_resolve_witness:
  "svn_temp_deserializer__ptr ex_blob 0x8000 0x8008 = (0x8018, ex_blob) \<and>
   (\<exists>h'. svn_temp_deserializer__resolve ex_blob 0x8000 0x8008 = Inr h' \<and>
         load_size_t h' 0x8008 = 0x8018) \<and>
   svn_temp_deserializer__ptr ex_blob 0x8000 0x8010 = (0, ex_blob) \<and>
   (\<exists>h'. svn_temp_deserializer__resolve ex_blob 0x8000 0x8010 = Inr h' \<and>
         load_size_t h' 0x8010 = 0) \<and>
   fst (svn_temp_deserializer__ptr ex_blob 0xFFFFFFFFFFFFFFF0 0x8008) = 8 \<and>
   svn_temp_deserializer__resolve ex_blob 0xFFFFFFFFFFFFFFF0 0x8008 = Inl AssertionFailed"
  using deserializer_ptr_resolve [of ex_blob "0x8000" "0x8008"]
    deserializer_ptr_resolve [of ex_blob "0x8000" "0x8010"]
    deserializer_ptr_resolve [of ex_blob "0xFFFFFFFFFFFFFFF0" "0x8008"]
  by (auto simp: ex_blob_slot ex_blob_null prod_eq_iff)

end
